theory Spec2Isabelle
  imports Complex_Main
begin

section \<open>Python values, dictionaries and the helpers of \<open>privex.helpers\<close>\<close>

text \<open>
  The functions of \<^verbatim>\<open>myip/core.py\<close> verified here are \<^verbatim>\<open>json_frm\<close>, \<^verbatim>\<open>merge_frm\<close>,
  \<^verbatim>\<open>wants_type\<close> and \<^verbatim>\<open>want_json\<close>, together with the table \<^verbatim>\<open>CONTENT_TYPES\<close>.

  The values that travel through them are the ones a decoded JSON body can hold, the
  strings of the query string and of the form, and what \<^verbatim>\<open>json_frm\<close> can fall back to.
  A Python \<^verbatim>\<open>dict\<close> with string keys is an association list in insertion order; a
  well-formed one has distinct keys. Floats are read as reals (NaN and the infinities,
  which are neither zero nor mappings, behave like any other non-zero float here).
  \<open>PCallable r\<close> is a callable object that returns \<open>r\<close> when called.
\<close>

datatype pyval =
    PNone
  | PBool bool
  | PInt int
  | PFloat real
  | PStr string
  | PList "pyval list"
  | PTuple "pyval list"
  | PDict "(string \<times> pyval) list"
  | PCallable pyval

datatype error = TypeError | AttributeError | InvalidOperation | HTTPException

type_synonym 'v dict = "(string \<times> 'v) list"

text \<open>\<^verbatim>\<open>d[k] = v\<close>: an existing key keeps its position, a new key goes to the end.\<close>

fun dict_set :: "'v dict \<Rightarrow> string \<Rightarrow> 'v \<Rightarrow> 'v dict" where
  "dict_set [] k v = [(k, v)]"
| "dict_set ((k', v') # d) k v =
     (if k' = k then (k, v) # d else (k', v') # dict_set d k v)"

text \<open>\<^verbatim>\<open>{**d, **e}\<close>: the items of \<open>e\<close> are stored into a copy of \<open>d\<close>, in order.\<close>

definition dict_update :: "'v dict \<Rightarrow> 'v dict \<Rightarrow> 'v dict" where
  "dict_update d e = foldl (\<lambda>acc (k, v). dict_set acc k v) d e"

text \<open>\<^verbatim>\<open>d.get(k, default)\<close>.\<close>

definition dict_get :: "'v dict \<Rightarrow> string \<Rightarrow> 'v \<Rightarrow> 'v" where
  "dict_get d k dflt = (case map_of d k of None \<Rightarrow> dflt | Some v \<Rightarrow> v)"

text \<open>
  \<^verbatim>\<open>privex.helpers.empty(v, zero=False, itr=False)\<close> is library code:
  \<^verbatim>\<open>
  _check = [None, '']
  if zero: _check += [0, '0']
  if v in _check: return True
  if itr:
      if v == [] or v == {}: return True
      if hasattr(v, '__len__') and len(v) == 0: return True
  return False
  \<close>
  Membership in \<^verbatim>\<open>_check\<close> is by \<^verbatim>\<open>==\<close>, so \<^verbatim>\<open>False\<close> and \<^verbatim>\<open>0.0\<close> count as \<^verbatim>\<open>0\<close>.
\<close>

fun eq_none_or_blank :: "pyval \<Rightarrow> bool" where
  "eq_none_or_blank PNone = True"
| "eq_none_or_blank (PStr s) = (s = [])"
| "eq_none_or_blank _ = False"

fun eq_zero :: "pyval \<Rightarrow> bool" where
  "eq_zero (PInt i) = (i = 0)"
| "eq_zero (PFloat r) = (r = 0)"
| "eq_zero (PBool b) = (\<not> b)"
| "eq_zero (PStr s) = (s = ''0'')"
| "eq_zero _ = False"

fun len_zero :: "pyval \<Rightarrow> bool" where
  "len_zero (PStr s) = (s = [])"
| "len_zero (PList xs) = (xs = [])"
| "len_zero (PTuple xs) = (xs = [])"
| "len_zero (PDict d) = (d = [])"
| "len_zero _ = False"

definition empty :: "pyval \<Rightarrow> bool \<Rightarrow> bool \<Rightarrow> bool" where
  "empty v zero itr =
     (if eq_none_or_blank v then True
      else if zero \<and> eq_zero v then True
      else if itr \<and> len_zero v then True
      else False)"

text \<open>A mapping of strings to strings (\<^verbatim>\<open>Mapping[str, str]\<close>) as a dictionary of Python values.\<close>

definition str_dict :: "string dict \<Rightarrow> pyval dict" where
  "str_dict d = map (\<lambda>(k, v). (k, PStr v)) d"

section \<open>The request\<close>

text \<open>
  What the code reads of a Flask request: \<^verbatim>\<open>req.headers\<close>, \<^verbatim>\<open>dict(req.args)\<close>,
  \<^verbatim>\<open>dict(req.form)\<close> and the method \<^verbatim>\<open>req.get_json(force, silent, cache)\<close>. The method
  belongs to Flask; it is a field of the record, so that nothing is assumed of it but
  what a theorem states: with \<^verbatim>\<open>silent=True\<close> Flask returns \<^verbatim>\<open>None\<close> for a body that
  does not parse, and the decoded value otherwise. The module-level \<^verbatim>\<open>request\<close> of
  Flask is the first argument of every function that reads it.
\<close>

record request =
  headers :: "string dict"
  args :: "pyval dict"
  form :: "pyval dict"
  get_json :: "bool \<Rightarrow> bool \<Rightarrow> bool \<Rightarrow> error + pyval"

section \<open>\<^verbatim>\<open>json_frm\<close> and \<^verbatim>\<open>merge_frm\<close>\<close>

text \<open>
  The \<^verbatim>\<open>fallback\<close> argument of \<^verbatim>\<open>json_frm\<close>: one of the types \<^verbatim>\<open>dict\<close>, \<^verbatim>\<open>list\<close>,
  \<^verbatim>\<open>tuple\<close>, another callable (given by what it returns), or a plain value.
\<close>

datatype fallback = Fb_dict | Fb_list | Fb_tuple | Fb_callable pyval | Fb_value pyval

definition json_frm ::
  "request \<Rightarrow> bool \<Rightarrow> bool \<Rightarrow> bool \<Rightarrow> fallback \<Rightarrow> request option \<Rightarrow> bool \<Rightarrow> error + pyval" where
  "json_frm request force silent cache fb req call_fb =
     (let req = (case req of None \<Rightarrow> request | Some r \<Rightarrow> r) in
      case get_json req force silent cache of
        Inl e \<Rightarrow> Inl e
      | Inr j \<Rightarrow>
          if empty j True True then
            (case fb of
               Fb_dict \<Rightarrow> Inr (PDict [])
             | Fb_list \<Rightarrow> Inr (PList [])
             | Fb_tuple \<Rightarrow> Inr (PTuple [])
             | Fb_callable r \<Rightarrow> Inr (if call_fb then r else PCallable r)
             | Fb_value v \<Rightarrow> Inr v)
          else Inr j)"

text \<open>
  \<^verbatim>\<open>merge_frm(use_get, use_post, use_json, req)\<close> with the default \<^verbatim>\<open>base_obj\<close>, a
  \<^verbatim>\<open>dict\<close> subclass. \<^verbatim>\<open>json_frm\<close> is called without \<^verbatim>\<open>req\<close>, so the JSON body is always
  the one of the module-level request. \<^verbatim>\<open>{**data, **x}\<close> raises \<^verbatim>\<open>TypeError\<close> when \<open>x\<close>
  is not a mapping.
\<close>

definition merge_frm ::
  "request \<Rightarrow> bool \<Rightarrow> bool \<Rightarrow> bool \<Rightarrow> request option \<Rightarrow> error + pyval dict" where
  "merge_frm request use_get use_post use_json req =
     (let req = (case req of None \<Rightarrow> request | Some r \<Rightarrow> r);
          data = [];
          data = (if use_get then dict_update data (args req) else data);
          data = (if use_post then dict_update data (form req) else data)
      in if use_json then
           (case json_frm request True True True Fb_dict None True of
              Inl e \<Rightarrow> Inl e
            | Inr (PDict j) \<Rightarrow> Inr (dict_update data j)
            | Inr _ \<Rightarrow> Inl TypeError)
         else Inr data)"

section \<open>The registry \<^verbatim>\<open>CONTENT_TYPES\<close>\<close>

text \<open>
  The table in the order of its keyword arguments, which is the order \<^verbatim>\<open>.items()\<close>
  yields. In the \<^verbatim>\<open>text\<close> list the source has no comma after
  \<^verbatim>\<open>'application/x-plain'\<close> nor after \<^verbatim>\<open>'application/plain-text'\<close>, so Python joins each
  with the literal that follows it.
\<close>

definition CONTENT_TYPES :: "(string \<times> string list) list" where
  "CONTENT_TYPES =
    [(''json'', [''json'', ''application/json'', ''application/x-json'', ''application/js'', ''js'',
                 ''api'', ''text/json'', ''text/x-json'']),
     (''text'', [''flat'', ''txt'', ''plain'', ''x-plain'', ''text'', ''text/*'', ''text/plain'',
                 ''text/x-plain'', ''text/plaintext'', ''plaintext'', ''plain-text'',
                 ''text/plain-text'', ''application/plain'',
                 ''application/x-plain'' @ ''application/plaintext'',
                 ''application/plain-text'' @ ''application/text'']),
     (''html'', [''htm'', ''html'', ''text/html'', ''text/x-html'', ''text/xhtml'', ''text/xhtml+xml'',
                 ''application/html'', ''application/x-html'', ''application/xhtml'',
                 ''application/xhtml+xml'', ''web'', ''page'', ''webpage'']),
     (''yaml'', [''yml'', ''yaml'', ''x-yml'', ''x-yaml'', ''text/yaml'', ''text/vnd.yaml'', ''text/yml'',
                 ''application/yaml'', ''application/yml'', ''text/x-yaml'', ''text/x-yml'',
                 ''application/vnd.yaml'', ''application/x-yaml'', ''application/x-yml''])]"

section \<open>Strings\<close>

text \<open>
  \<^verbatim>\<open>str.lower()\<close> on the letters A to Z; every other character is kept. (Python also
  lowers letters outside ASCII; a string that holds one never lowers to an alias, since
  the only ASCII letter such a letter can lower to by itself is \<^verbatim>\<open>k\<close>, which no alias
  holds.)
  A value that is not a string has no \<^verbatim>\<open>lower\<close>: \<^verbatim>\<open>AttributeError\<close>.
\<close>

definition lower_char :: "char \<Rightarrow> char" where
  "lower_char c =
     (case map_of (zip ''ABCDEFGHIJKLMNOPQRSTUVWXYZ'' ''abcdefghijklmnopqrstuvwxyz'') c of
        Some l \<Rightarrow> l
      | None \<Rightarrow> c)"

definition lower :: "string \<Rightarrow> string" where
  "lower s = map lower_char s"

fun py_lower :: "pyval \<Rightarrow> error + string" where
  "py_lower (PStr s) = Inr (lower s)"
| "py_lower _ = Inl AttributeError"

text \<open>\<^verbatim>\<open>s.startswith(p)\<close> and \<^verbatim>\<open>sub in s\<close>.\<close>

fun startswith :: "string \<Rightarrow> string \<Rightarrow> bool" where
  "startswith s [] = True"
| "startswith [] (c # p) = False"
| "startswith (x # s) (c # p) = (x = c \<and> startswith s p)"

fun str_in :: "string \<Rightarrow> string \<Rightarrow> bool" where
  "str_in sub [] = (sub = [])"
| "str_in sub (c # s) = (startswith (c # s) sub \<or> str_in sub s)"

section \<open>\<^verbatim>\<open>wants_type\<close> and \<^verbatim>\<open>want_json\<close>\<close>

text \<open>
  \<^verbatim>\<open>for tname, tlist in table.items(): if s in tlist: return tname\<close>. \<open>Some tname\<close> is
  the \<^verbatim>\<open>return\<close>, \<open>None\<close> is the loop running to its end.
\<close>

fun find_type :: "(string \<times> string list) list \<Rightarrow> string \<Rightarrow> string option" where
  "find_type [] s = None"
| "find_type ((tname, tlist) # rest) s =
     (if s \<in> set tlist then Some tname else find_type rest s)"

text \<open>
  The loop over the parsed \<^verbatim>\<open>Accept\<close> header and the final \<^verbatim>\<open>return 'any'\<close>. Of each
  \<^verbatim>\<open>AcceptableType\<close> only \<^verbatim>\<open>mime_type\<close> is read, so the list holds these strings.
\<close>

fun accepts_loop :: "string list \<Rightarrow> string" where
  "accepts_loop [] = ''any''"
| "accepts_loop (mt # rest) =
     (if str_in ''html'' mt then ''html''
      else case find_type CONTENT_TYPES (lower mt) of
             Some tname \<Rightarrow> tname
           | None \<Rightarrow> accepts_loop rest)"

text \<open>
  \<^verbatim>\<open>wants_type(accepts, headers, query, fmt)\<close>; an argument left out is \<open>None\<close>.

  Its first two statements choose the header string that is parsed: \<^verbatim>\<open>headers\<close>, when
  \<^verbatim>\<open>None\<close> or of length 0, is replaced by the headers of the request, and \<^verbatim>\<open>accepts\<close>,
  when \<^verbatim>\<open>None\<close> or \<^verbatim>\<open>''\<close>, by \<^verbatim>\<open>headers.get('Accept', '*/*')\<close>.
\<close>

definition accept_header :: "request \<Rightarrow> string option \<Rightarrow> string dict option \<Rightarrow> string" where
  "accept_header request accepts hdrs =
     (let hdrs = (case hdrs of
                    None \<Rightarrow> headers request
                  | Some h \<Rightarrow> if empty (PDict (str_dict h)) False True then headers request else h);
          dflt = dict_get hdrs ''Accept'' ''*/*''
      in case accepts of
           None \<Rightarrow> dflt
         | Some a \<Rightarrow> if empty (PStr a) False False then dflt else a)"

text \<open>
  \<^verbatim>\<open>fmt = query.get('format', 'html') if empty(fmt) else fmt\<close>: the value whose
  \<^verbatim>\<open>lower()\<close> is looked up.
\<close>

definition format_of :: "pyval dict \<Rightarrow> string option \<Rightarrow> pyval" where
  "format_of query fmt =
     (case fmt of
        None \<Rightarrow> dict_get query ''format'' (PStr ''html'')
      | Some f \<Rightarrow> if empty (PStr f) False False
                  then dict_get query ''format'' (PStr ''html'') else PStr f)"

text \<open>
  \<^verbatim>\<open>query = merge_frm() if empty(query) else query\<close>: a \<^verbatim>\<open>query\<close> left out is merged
  from the request, which may raise; a mapping that is given is kept, also when it has
  no key, since \<^verbatim>\<open>empty\<close> is called without \<^verbatim>\<open>itr\<close>. \<^verbatim>\<open>query\<close> is declared
  \<^verbatim>\<open>Mapping[str, str]\<close>, but the values of a merged one may be any decoded JSON value.
\<close>

definition query_of :: "request \<Rightarrow> pyval dict option \<Rightarrow> error + pyval dict" where
  "query_of request query =
     (case query of
        None \<Rightarrow> merge_frm request True True True None
      | Some q \<Rightarrow> if empty (PDict q) False False
                  then merge_frm request True True True None else Inr q)"

text \<open>
  \<^verbatim>\<open>accept_types.parse_header\<close> is a library function: it is the parameter
  \<open>parse_header\<close>. On a header string it either returns a list of entries, given here
  by the \<^verbatim>\<open>mime_type\<close> of each entry in the order it returns them, or it raises: the
  library catches \<^verbatim>\<open>ValueError\<close> for an entry that is no MIME type, but not the
  \<^verbatim>\<open>decimal.InvalidOperation\<close> that a q-value such as \<^verbatim>\<open>q=.\<close> or \<^verbatim>\<open>q=1.2.3\<close> causes.
  \<^verbatim>\<open>wants_type\<close> calls it in its third statement, before \<^verbatim>\<open>query\<close> and \<^verbatim>\<open>fmt\<close> are
  read, and catches nothing.
\<close>

definition wants_type ::
  "(string \<Rightarrow> error + string list) \<Rightarrow> request \<Rightarrow> string option \<Rightarrow> string dict option \<Rightarrow>
   pyval dict option \<Rightarrow> string option \<Rightarrow> error + string" where
  "wants_type parse_header request accepts hdrs query fmt =
     (case parse_header (accept_header request accepts hdrs) of
        Inl e \<Rightarrow> Inl e
      | Inr accepts \<Rightarrow>
          (case query_of request query of
             Inl e \<Rightarrow> Inl e
           | Inr query \<Rightarrow>
               (case py_lower (format_of query fmt) of
                  Inl e \<Rightarrow> Inl e
                | Inr f \<Rightarrow>
                    (case find_type CONTENT_TYPES f of
                       Some tname \<Rightarrow> Inr tname
                     | None \<Rightarrow>
                         if f \<in> set [''json'', ''application/json'', ''js'', ''api'']
                           then Inr ''json''
                         else if f \<in> set [''flat'', ''plain'', ''text'', ''text/plain'',
                                           ''plaintext'']
                           then Inr ''text''
                         else if f \<in> set [''html'', ''text/html'', ''application/html'', ''web'',
                                           ''page'', ''webpage'']
                           then Inr ''html''
                         else if f \<in> set [''yml'', ''yaml'', ''text/yaml'', ''text/yml'',
                                           ''application/yaml'', ''application/yml'']
                           then Inr ''yaml''
                         else Inr (accepts_loop accepts)))))"

text \<open>
  The same function with the four literal checks that follow the registry loop taken
  out: after the loop it goes straight to the \<^verbatim>\<open>Accept\<close> entries.
\<close>

definition wants_type_no_fallback ::
  "(string \<Rightarrow> error + string list) \<Rightarrow> request \<Rightarrow> string option \<Rightarrow> string dict option \<Rightarrow>
   pyval dict option \<Rightarrow> string option \<Rightarrow> error + string" where
  "wants_type_no_fallback parse_header request accepts hdrs query fmt =
     (case parse_header (accept_header request accepts hdrs) of
        Inl e \<Rightarrow> Inl e
      | Inr accepts \<Rightarrow>
          (case query_of request query of
             Inl e \<Rightarrow> Inl e
           | Inr query \<Rightarrow>
               (case py_lower (format_of query fmt) of
                  Inl e \<Rightarrow> Inl e
                | Inr f \<Rightarrow>
                    (case find_type CONTENT_TYPES f of
                       Some tname \<Rightarrow> Inr tname
                     | None \<Rightarrow> Inr (accepts_loop accepts)))))"

text \<open>
  \<^verbatim>\<open>want_json\<close>: \<open>api_only\<close> is the truth value of \<^verbatim>\<open>cf['API_ONLY']\<close>; the only keyword
  \<^verbatim>\<open>wants_type\<close> takes beyond the three named ones is \<^verbatim>\<open>fmt\<close>.
\<close>

definition want_json ::
  "bool \<Rightarrow> (string \<Rightarrow> error + string list) \<Rightarrow> request \<Rightarrow> string option \<Rightarrow>
   string dict option \<Rightarrow> pyval dict option \<Rightarrow> string option \<Rightarrow> error + bool" where
  "want_json api_only parse_header request accepts hdrs query fmt =
     (if api_only then Inr True
      else case wants_type parse_header request accepts hdrs query fmt of
             Inl e \<Rightarrow> Inl e
           | Inr t \<Rightarrow> Inr (t = ''json''))"

section \<open>Example inputs\<close>

text \<open>
  What \<^verbatim>\<open>accept_types.parse_header\<close> does on the header strings of the examples below:
  the entries in the order of their q-values, nothing for a header without a valid MIME
  type, and \<^verbatim>\<open>decimal.InvalidOperation\<close> for the two headers whose q-value is no
  decimal number. The value on any other string plays no part.
\<close>

definition parse_header_ex :: "string \<Rightarrow> error + string list" where
  "parse_header_ex h =
     (case map_of
        [(''text/html;q=.'', Inl InvalidOperation),
         (''application/json;q=1.2.3'', Inl InvalidOperation),
         ([], Inr []),
         ('';;,=,'', Inr []),
         (''*/*'', Inr [''*/*'']),
         (''text/html'', Inr [''text/html'']),
         (''text/plain'', Inr [''text/plain'']),
         (''application/json'', Inr [''application/json'']),
         (''application/octet-stream'', Inr [''application/octet-stream'']),
         (''text/html;q=1.0, application/json;q=0.5'', Inr [''text/html'', ''application/json'']),
         (''image/png, application/x-html5;q=0.9, application/json;q=0.8'',
            Inr [''image/png'', ''application/x-html5'', ''application/json''])] h of
        Some r \<Rightarrow> r
      | None \<Rightarrow> Inr [])"

text \<open>
  A request without headers, query string and form whose body decodes to \<open>j\<close>
  (\<open>PNone\<close> for a body that does not parse).
\<close>

definition json_request :: "pyval \<Rightarrow> request" where
  "json_request j =
     \<lparr>headers = [], args = [], form = [], get_json = (\<lambda>force silent cache. Inr j)\<rparr>"

section \<open>Dictionaries and strings: basic facts\<close>

lemma map_of_dict_set: "map_of (dict_set d k v) = (map_of d)(k \<mapsto> v)"
  by (induction d) (auto simp: fun_eq_iff)

lemma dict_update_Nil: "dict_update d [] = d"
  by (simp add: dict_update_def)

text \<open>
  On dictionaries with distinct keys \<^verbatim>\<open>{**d, **e}\<close> is the overlay of the two lookups,
  the right one winning.
\<close>

lemma map_of_dict_update:
  "distinct (map fst e) \<Longrightarrow> map_of (dict_update d e) = map_of d ++ map_of e"
proof (induction e arbitrary: d)
  case Nil
  show ?case by (simp add: dict_update_def)
next
  case (Cons x e)
  obtain k v where x: "x = (k, v)" by (cases x)
  from Cons.prems x have nk: "k \<notin> dom (map_of e)" and de: "distinct (map fst e)"
    by (auto simp: dom_map_of_conv_image_fst)
  have "dict_update d (x # e) = dict_update (dict_set d k v) e"
    by (simp add: dict_update_def x)
  then show ?case using Cons.IH[OF de, of "dict_set d k v"] nk
    by (auto simp: x map_of_dict_set fun_eq_iff map_add_def split: option.splits)
qed

text \<open>\<open>startswith\<close> and \<open>str_in\<close> compute what their Python counterparts mean.\<close>

lemma startswith_iff: "startswith s p \<longleftrightarrow> (\<exists>t. s = p @ t)"
  by (induction s p rule: startswith.induct) auto

lemma str_in_iff: "str_in sub s \<longleftrightarrow> (\<exists>p t. s = p @ sub @ t)"
proof (induction s)
  case Nil
  show ?case by auto
next
  case (Cons c s)
  show ?case
  proof
    assume "str_in sub (c # s)"
    then consider "startswith (c # s) sub" | "str_in sub s" by auto
    then show "\<exists>p t. c # s = p @ sub @ t"
    proof cases
      case 1
      then obtain t where "c # s = sub @ t" by (auto simp: startswith_iff)
      then have "c # s = [] @ sub @ t" by simp
      then show ?thesis by blast
    next
      case 2
      then obtain p t where "s = p @ sub @ t" using Cons.IH by blast
      then have "c # s = (c # p) @ sub @ t" by simp
      then show ?thesis by blast
    qed
  next
    assume "\<exists>p t. c # s = p @ sub @ t"
    then obtain p t where pt: "c # s = p @ sub @ t" by blast
    show "str_in sub (c # s)"
    proof (cases p)
      case Nil
      with pt have "startswith (c # s) sub" unfolding startswith_iff by auto
      then show ?thesis by simp
    next
      case (Cons a p')
      with pt have "s = p' @ sub @ t" by simp
      then show ?thesis using Cons.IH by auto
    qed
  qed
qed

lemma lower_html: "lower ''html'' = ''html''"
  by (simp add: lower_def lower_char_def)

section \<open>The registry loop and the loop over the \<^verbatim>\<open>Accept\<close> entries\<close>

lemma find_type_None: "find_type tbl s = None \<longleftrightarrow> (\<forall>(t, l) \<in> set tbl. s \<notin> set l)"
  by (induction tbl) (auto split: if_splits)

lemma find_type_Some: "find_type tbl s = Some t \<Longrightarrow> t \<in> fst ` set tbl"
  by (induction tbl) (auto split: if_splits)

lemma find_type_CONTENT_TYPES:
  "find_type CONTENT_TYPES s = Some t \<Longrightarrow> t \<in> {''json'', ''text'', ''html'', ''yaml''}"
  by (drule find_type_Some) (simp add: CONTENT_TYPES_def)

lemma find_type_html: "find_type CONTENT_TYPES ''html'' = Some ''html''"
  by (simp add: CONTENT_TYPES_def)

lemma accepts_loop_range: "accepts_loop ms \<in> {''json'', ''text'', ''html'', ''yaml'', ''any''}"
proof (induction ms)
  case Nil
  show ?case by simp
next
  case (Cons m ms)
  then show ?case using find_type_CONTENT_TYPES[of "lower m"]
    by (cases "find_type CONTENT_TYPES (lower m)") auto
qed

lemma accepts_loop_html:
  assumes "\<forall>m \<in> set pre. \<not> str_in ''html'' m \<and> find_type CONTENT_TYPES (lower m) = None"
    and "str_in ''html'' mt"
  shows "accepts_loop (pre @ mt # post) = ''html''"
  using assms by (induction pre) auto

text \<open>A string that the registry loop lets through is in none of the four literal lists.\<close>

lemma fallback_redundant:
  assumes "find_type CONTENT_TYPES f = None"
  shows "f \<notin> set [''json'', ''application/json'', ''js'', ''api'']"
    and "f \<notin> set [''flat'', ''plain'', ''text'', ''text/plain'', ''plaintext'']"
    and "f \<notin> set [''html'', ''text/html'', ''application/html'', ''web'', ''page'', ''webpage'']"
    and "f \<notin> set [''yml'', ''yaml'', ''text/yaml'', ''text/yml'', ''application/yaml'',
                    ''application/yml'']"
  using assms unfolding find_type_None CONTENT_TYPES_def by auto

lemma fallback_checks_skip:
  "(case find_type CONTENT_TYPES f of
      Some tname \<Rightarrow> Inr tname
    | None \<Rightarrow>
        if f \<in> set [''json'', ''application/json'', ''js'', ''api''] then Inr ''json''
        else if f \<in> set [''flat'', ''plain'', ''text'', ''text/plain'', ''plaintext'']
          then Inr ''text''
        else if f \<in> set [''html'', ''text/html'', ''application/html'', ''web'',
                          ''page'', ''webpage'']
          then Inr ''html''
        else if f \<in> set [''yml'', ''yaml'', ''text/yaml'', ''text/yml'',
                          ''application/yaml'', ''application/yml'']
          then Inr ''yaml''
        else (Inr x :: error + string)) =
   (case find_type CONTENT_TYPES f of Some tname \<Rightarrow> Inr tname | None \<Rightarrow> Inr x)"
proof (cases "find_type CONTENT_TYPES f")
  case None
  from fallback_redundant[OF None] None show ?thesis by simp
next
  case (Some t)
  then show ?thesis by simp
qed

section \<open>\<^verbatim>\<open>wants_type\<close> when nothing raises\<close>

lemma query_of_given: "query_of request (Some q) = Inr q"
  by (simp add: query_of_def empty_def)

lemma accept_header_given: "a \<noteq> [] \<Longrightarrow> accept_header request (Some a) hdrs = a"
  by (simp add: accept_header_def empty_def Let_def)

text \<open>
  When the header parses, the query is there and the format is a string, \<^verbatim>\<open>wants_type\<close>
  returns what the registry loop finds, and otherwise what the loop over the \<^verbatim>\<open>Accept\<close>
  entries returns.
\<close>

lemma wants_type_returns:
  assumes "parse_header (accept_header request accepts hdrs) = Inr ms"
    and "query_of request query = Inr d"
    and "format_of d fmt = PStr s"
  shows "wants_type parse_header request accepts hdrs query fmt =
         Inr (case find_type CONTENT_TYPES (lower s) of
                Some tname \<Rightarrow> tname
              | None \<Rightarrow> accepts_loop ms)"
proof (cases "find_type CONTENT_TYPES (lower s)")
  case None
  from fallback_redundant[OF None] None assms show ?thesis
    unfolding wants_type_def by simp
next
  case (Some t)
  with assms show ?thesis
    unfolding wants_type_def by simp
qed

text \<open>In every other case it raises: these three conditions are all it needs.\<close>

lemma wants_type_Inr_iff:
  "(\<exists>t. wants_type parse_header request accepts hdrs query fmt = Inr t) \<longleftrightarrow>
   (\<exists>ms d s. parse_header (accept_header request accepts hdrs) = Inr ms \<and>
              query_of request query = Inr d \<and> format_of d fmt = PStr s)"
proof
  assume "\<exists>t. wants_type parse_header request accepts hdrs query fmt = Inr t"
  then obtain t where t: "wants_type parse_header request accepts hdrs query fmt = Inr t" ..
  from t obtain ms where ms: "parse_header (accept_header request accepts hdrs) = Inr ms"
    unfolding wants_type_def by (cases "parse_header (accept_header request accepts hdrs)") auto
  from t ms obtain d where d: "query_of request query = Inr d"
    unfolding wants_type_def by (cases "query_of request query") auto
  from t ms d obtain f where "py_lower (format_of d fmt) = Inr f"
    unfolding wants_type_def by (cases "py_lower (format_of d fmt)") auto
  then obtain s where "format_of d fmt = PStr s"
    by (cases "format_of d fmt") auto
  with ms d show "\<exists>ms d s. parse_header (accept_header request accepts hdrs) = Inr ms \<and>
              query_of request query = Inr d \<and> format_of d fmt = PStr s" by blast
next
  assume "\<exists>ms d s. parse_header (accept_header request accepts hdrs) = Inr ms \<and>
              query_of request query = Inr d \<and> format_of d fmt = PStr s"
  then show "\<exists>t. wants_type parse_header request accepts hdrs query fmt = Inr t"
    using wants_type_returns by blast
qed

lemma format_of_str_dict: "\<exists>s. format_of (str_dict q) fmt = PStr s"
proof -
  have "map_of (str_dict q) k = map_option PStr (map_of q k)" for k
    by (induction q) (auto simp: str_dict_def)
  then have "\<exists>s. dict_get (str_dict q) ''format'' (PStr ''html'') = PStr s"
    by (cases "map_of q ''format''") (simp_all add: dict_get_def)
  then show ?thesis
    by (auto simp: format_of_def split: option.splits)
qed

lemma format_of_explicit: "f \<noteq> [] \<Longrightarrow> format_of q (Some f) = PStr f"
  by (simp add: format_of_def empty_def)

lemma format_of_default: "format_of [] None = PStr ''html''"
  by (simp add: format_of_def dict_get_def)

text \<open>Without a format and with no parameter the result is \<^verbatim>\<open>'html'\<close> once the header parses.\<close>

lemma wants_type_no_format:
  assumes "a \<noteq> []" and "parse_header a = Inr ms"
  shows "wants_type parse_header request (Some a) hdrs (Some []) None = Inr ''html''"
  using assms
  by (simp add: wants_type_returns[OF _ query_of_given format_of_default]
      accept_header_given lower_html find_type_html)

section \<open>\<^verbatim>\<open>json_frm\<close> inside \<^verbatim>\<open>merge_frm\<close>\<close>

lemma json_frm_dict:
  assumes "get_json request True True True = Inr (PDict j)"
  shows "json_frm request True True True Fb_dict None True = Inr (PDict j)"
  using assms by (cases j) (simp_all add: json_frm_def empty_def)

lemma json_frm_empty:
  assumes "get_json request True True True = Inr j" and "empty j True True"
  shows "json_frm request True True True Fb_dict None True = Inr (PDict [])"
  using assms by (simp add: json_frm_def)

text \<open>
  A body that does not parse (\<^verbatim>\<open>get_json\<close> returns \<^verbatim>\<open>None\<close>) or that decodes to an
  empty value adds nothing: the merge is the merge of the other sources.
\<close>

lemma merge_frm_json_empty:
  assumes "get_json request True True True = Inr j" and "empty j True True"
  shows "merge_frm request use_get use_post True req =
         merge_frm request use_get use_post False req"
  by (simp add: merge_frm_def json_frm_empty[OF assms] dict_update_Nil Let_def)

lemma merge_frm_no_json_total:
  "\<exists>d. merge_frm request use_get use_post False req = Inr d"
  by (simp add: merge_frm_def Let_def)

section \<open>The claims\<close>

text \<open>
  C1. For \<^verbatim>\<open>fmt=None\<close>, \<^verbatim>\<open>query={}\<close> and \<^verbatim>\<open>accepts="application/json"\<close> the claim expects
  \<^verbatim>\<open>'json'\<close>, found through the \<^verbatim>\<open>Accept\<close> header. The code returns \<^verbatim>\<open>'html'\<close>: the
  default \<^verbatim>\<open>'html'\<close> of \<^verbatim>\<open>query.get('format', 'html')\<close> is itself an alias of the registry,
  so the registry loop returns before the parsed header is looked at, whatever the
  library has parsed it to.
\<close>

theorem wants_type_accept_json_without_format:
  assumes "parse_header ''application/json'' = Inr ms"
  shows "wants_type parse_header request (Some ''application/json'') hdrs (Some []) None
           = Inr ''html''"
  using assms by (simp add: wants_type_no_format)

theorem wants_type_accept_json_without_format_witness:
  "parse_header_ex ''application/json'' = Inr [''application/json''] \<and>
   wants_type parse_header_ex (json_request PNone) (Some ''application/json'') None (Some []) None
     = Inr ''html''"
proof -
  have p: "parse_header_ex ''application/json'' = Inr [''application/json'']"
    by (simp add: parse_header_ex_def)
  show ?thesis using p wants_type_accept_json_without_format[where parse_header = parse_header_ex, OF p] by simp
qed

text \<open>
  C2. For \<^verbatim>\<open>fmt=None\<close>, \<^verbatim>\<open>query={}\<close> and \<^verbatim>\<open>accepts="application/octet-stream"\<close> the claim
  expects the sentinel \<^verbatim>\<open>'any'\<close>. The code returns \<^verbatim>\<open>'html'\<close>, for the reason given
  at C1.
\<close>

theorem wants_type_accept_unknown_without_format:
  assumes "parse_header ''application/octet-stream'' = Inr ms"
  shows "wants_type parse_header request (Some ''application/octet-stream'') hdrs (Some []) None
           = Inr ''html''"
  using assms by (simp add: wants_type_no_format)

theorem wants_type_accept_unknown_without_format_witness:
  "parse_header_ex ''application/octet-stream'' = Inr [''application/octet-stream''] \<and>
   wants_type parse_header_ex (json_request PNone) (Some ''application/octet-stream'') None
     (Some []) None = Inr ''html''"
proof -
  have p: "parse_header_ex ''application/octet-stream'' = Inr [''application/octet-stream'']"
    by (simp add: parse_header_ex_def)
  show ?thesis using p wants_type_accept_unknown_without_format[where parse_header = parse_header_ex, OF p] by simp
qed

text \<open>
  C3. The claim expects \<^verbatim>\<open>wants_type\<close> to return one of the five strings for every
  format, every parameter map and every \<^verbatim>\<open>Accept\<close> header, malformed ones included, and
  never to raise. It raises in three ways: on the header \<^verbatim>\<open>text/html;q=.\<close> the exception
  of \<^verbatim>\<open>parse_header\<close> passes through; on the parameters \<^verbatim>\<open>{'format': 5}\<close> the integer has
  no \<^verbatim>\<open>lower\<close>; with \<^verbatim>\<open>query\<close> left out and the body \<^verbatim>\<open>[1]\<close>, \<^verbatim>\<open>merge_frm()\<close> raises.
\<close>

theorem wants_type_total_counterexample:
  "wants_type parse_header_ex (json_request PNone) (Some ''text/html;q=.'') None (Some []) None
     = Inl InvalidOperation \<and>
   wants_type parse_header_ex (json_request PNone) (Some ''text/html'') None
     (Some [(''format'', PInt 5)]) None = Inl AttributeError \<and>
   wants_type parse_header_ex (json_request (PList [PInt 1])) (Some ''text/html'') None None None
     = Inl TypeError"
  by (simp add: wants_type_def parse_header_ex_def json_request_def accept_header_def
      query_of_def format_of_def dict_get_def empty_def merge_frm_def json_frm_def)

text \<open>
  C3, as the code has it. \<^verbatim>\<open>wants_type\<close> returns one of \<^verbatim>\<open>'json'\<close>, \<^verbatim>\<open>'text'\<close>, \<^verbatim>\<open>'html'\<close>,
  \<^verbatim>\<open>'yaml'\<close>, \<^verbatim>\<open>'any'\<close> for every format argument, every parameter map and every header
  such that \<^verbatim>\<open>parse_header\<close> returns on the header, the parameter map is given or
  \<^verbatim>\<open>merge_frm()\<close> returns it, and the format that is read (\<^verbatim>\<open>fmt\<close>, else the value of
  \<^verbatim>\<open>'format'\<close>, else \<^verbatim>\<open>'html'\<close>) is a string. (In every other case it raises:
  \<open>wants_type_Inr_iff\<close>.)
\<close>

theorem wants_type_total:
  assumes "parse_header (accept_header request accepts hdrs) = Inr ms"
    and "query_of request query = Inr d"
    and "format_of d fmt = PStr s"
  shows "wants_type parse_header request accepts hdrs query fmt
           \<in> {Inr ''json'', Inr ''text'', Inr ''html'', Inr ''yaml'', Inr ''any''}"
proof (cases "find_type CONTENT_TYPES (lower s)")
  case None
  then show ?thesis
    using accepts_loop_range[of ms] by (simp add: wants_type_returns[where parse_header = parse_header, OF assms])
next
  case (Some t)
  then show ?thesis
    using find_type_CONTENT_TYPES[OF Some] by (auto simp: wants_type_returns[where parse_header = parse_header, OF assms])
qed

text \<open>
  An instance: a format that is no alias and a malformed header that parses to nothing.
\<close>

theorem wants_type_total_witness:
  "wants_type parse_header_ex (json_request PNone) (Some '';;,=,'') None
     (Some [(''format'', PStr ''pdf'')]) None = Inr ''any''"
proof -
  have a: "parse_header_ex (accept_header (json_request PNone) (Some '';;,=,'') None) = Inr []"
    by (simp add: accept_header_given parse_header_ex_def)
  have b: "query_of (json_request PNone) (Some [(''format'', PStr ''pdf'')])
             = Inr [(''format'', PStr ''pdf'')]"
    by (rule query_of_given)
  have c: "format_of [(''format'', PStr ''pdf'')] None = PStr ''pdf''"
    by (simp add: format_of_def dict_get_def)
  have "wants_type parse_header_ex (json_request PNone) (Some '';;,=,'') None
     (Some [(''format'', PStr ''pdf'')]) None \<noteq> Inr t" if "t \<in> {''json'', ''text'', ''html'', ''yaml''}" for t
    using that
    by (auto simp: wants_type_returns[where parse_header = parse_header_ex, OF a b c] lower_def lower_char_def CONTENT_TYPES_def)
  then show ?thesis using wants_type_total[where parse_header = parse_header_ex, OF a b c] by auto
qed

text \<open>
  C4. The claim expects \<^verbatim>\<open>merge_frm\<close> never to raise, for every request body. A body
  that is valid JSON but not an object, here the array \<^verbatim>\<open>[1]\<close>, is returned as it is by
  \<^verbatim>\<open>json_frm\<close>, and \<^verbatim>\<open>{**data, **[1]}\<close> raises \<^verbatim>\<open>TypeError\<close>. (For a body that fails to
  parse or is empty the merge is the one of the other sources: \<open>merge_frm_json_empty\<close>.)
\<close>

theorem merge_frm_json_array_raises:
  "merge_frm \<lparr>headers = [], args = [(''a'', PStr ''1'')], form = [],
              get_json = (\<lambda>force silent cache. Inr (PList [PInt 1]))\<rparr>
     True True True None = Inl TypeError"
  by (simp add: merge_frm_def json_frm_def empty_def)

text \<open>
  C5. With the three sources enabled and a JSON body that is an object, \<^verbatim>\<open>merge_frm\<close>
  returns the query arguments overlaid with the form, overlaid with the body; looking a
  key up in the result gives the value of the body if the body has the key, else the one
  of the form if the form has it, else the one of the query (\<open>++\<close> on maps prefers its
  right argument). The three dictionaries have distinct keys, as dictionaries do.
\<close>

theorem merge_frm_precedence:
  assumes "get_json request True True True = Inr (PDict j)"
    and "distinct (map fst (args request))"
    and "distinct (map fst (form request))"
    and "distinct (map fst j)"
  shows "\<exists>d. merge_frm request True True True None = Inr d \<and>
             d = dict_update (dict_update (dict_update [] (args request)) (form request)) j \<and>
             map_of d = map_of (args request) ++ map_of (form request) ++ map_of j"
  using assms
  by (simp add: merge_frm_def json_frm_dict map_of_dict_update)

text \<open>The example of the claim: query \<^verbatim>\<open>{a:1}\<close>, form \<^verbatim>\<open>{a:2, b:3}\<close>, body \<^verbatim>\<open>{a:4}\<close>.\<close>

theorem merge_frm_precedence_witness:
  "merge_frm \<lparr>headers = [], args = [(''a'', PInt 1)], form = [(''a'', PInt 2), (''b'', PInt 3)],
              get_json = (\<lambda>force silent cache. Inr (PDict [(''a'', PInt 4)]))\<rparr>
     True True True None = Inr [(''a'', PInt 4), (''b'', PInt 3)]"
  using merge_frm_precedence[of
      "\<lparr>headers = [], args = [(''a'', PInt 1)], form = [(''a'', PInt 2), (''b'', PInt 3)],
        get_json = (\<lambda>force silent cache. Inr (PDict [(''a'', PInt 4)]))\<rparr>"
      "[(''a'', PInt 4)]"]
  by (simp add: dict_update_def)

text \<open>
  C6. The claim expects an explicit format that is an alias to be resolved before the
  parameter map and the \<^verbatim>\<open>Accept\<close> header are consulted. The header is parsed first: with
  the format \<^verbatim>\<open>"yml"\<close>, no parameters and the header \<^verbatim>\<open>application/json;q=1.2.3\<close> the
  exception of \<^verbatim>\<open>parse_header\<close> passes through and nothing is returned.
\<close>

theorem explicit_format_wins_counterexample:
  "wants_type parse_header_ex (json_request PNone) (Some ''application/json;q=1.2.3'') None
     (Some []) (Some ''yml'') = Inl InvalidOperation"
  by (simp add: wants_type_def parse_header_ex_def accept_header_def empty_def)

text \<open>
  C6, as the code has it. When \<^verbatim>\<open>parse_header\<close> returns on the header and the parameter
  map is given or \<^verbatim>\<open>merge_frm()\<close> returns it, an explicit, non-empty format whose
  lower-case form is an alias of the registry decides the result: \<^verbatim>\<open>wants_type\<close> returns
  the format of the first list that holds it, whatever the entries of the header and the
  parameters are.
\<close>

theorem explicit_format_wins:
  assumes "f \<noteq> []" and "find_type CONTENT_TYPES (lower f) = Some t"
    and "parse_header (accept_header request accepts hdrs) = Inr ms"
    and "query_of request query = Inr d"
  shows "wants_type parse_header request accepts hdrs query (Some f) = Inr t"
  using assms(2)
  by (simp add: wants_type_returns[where parse_header = parse_header, OF assms(3) assms(4)
      format_of_explicit[OF assms(1)]])

text \<open>The example of the claim: format \<^verbatim>\<open>"yml"\<close>, no parameters, \<^verbatim>\<open>Accept: text/html\<close>.\<close>

theorem explicit_format_wins_witness:
  "wants_type parse_header_ex (json_request PNone) (Some ''text/html'') None (Some [])
     (Some ''yml'') = Inr ''yaml''"
proof -
  have a: "''yml'' \<noteq> []" by simp
  have b: "find_type CONTENT_TYPES (lower ''yml'') = Some ''yaml''"
    by (simp add: CONTENT_TYPES_def lower_def lower_char_def)
  have c: "parse_header_ex (accept_header (json_request PNone) (Some ''text/html'') None)
             = Inr [''text/html'']"
    by (simp add: accept_header_given parse_header_ex_def)
  have d: "query_of (json_request PNone) (Some []) = Inr []"
    by (rule query_of_given)
  show ?thesis using explicit_format_wins[where parse_header = parse_header_ex, OF a b c d] .
qed

text \<open>
  C7. When the format is a string that is no alias, the entries of the parsed \<^verbatim>\<open>Accept\<close>
  header are inspected in order. If every entry before \<open>mt\<close> neither contains \<^verbatim>\<open>html\<close>
  nor is an alias, and \<open>mt\<close> contains \<^verbatim>\<open>html\<close>, the result is \<^verbatim>\<open>'html'\<close>, whether or not
  \<open>mt\<close> or a later entry is an alias of another format. And for no format, no parameters
  and the header \<^verbatim>\<open>text/html;q=1.0, application/json;q=0.5\<close>, which the library parses,
  the result is \<^verbatim>\<open>'html'\<close>.
\<close>

theorem accept_html_short_circuit:
  assumes "format_of q fmt = PStr s"
    and "find_type CONTENT_TYPES (lower s) = None"
    and "parse_header (accept_header request accepts hdrs) = Inr (pre @ mt # post)"
    and "\<forall>m \<in> set pre. \<not> str_in ''html'' m \<and> find_type CONTENT_TYPES (lower m) = None"
    and "str_in ''html'' mt"
    and "parse_header' ''text/html;q=1.0, application/json;q=0.5'' = Inr ms'"
  shows "wants_type parse_header request accepts hdrs (Some q) fmt = Inr ''html'' \<and>
         wants_type parse_header' request' (Some ''text/html;q=1.0, application/json;q=0.5'')
           hdrs' (Some []) None = Inr ''html''"
  using assms(2,4,5,6) accepts_loop_html[of pre mt post]
  by (simp add: wants_type_returns[where parse_header = parse_header, OF assms(3) query_of_given assms(1)] wants_type_no_format)

text \<open>
  An instance where the loop is reached: \<^verbatim>\<open>?format=pdf\<close>, and a header whose second
  entry contains \<^verbatim>\<open>html\<close> without being an alias, before \<^verbatim>\<open>application/json\<close>.
\<close>

theorem accept_html_short_circuit_witness:
  "wants_type parse_header_ex (json_request PNone)
     (Some ''image/png, application/x-html5;q=0.9, application/json;q=0.8'') None
     (Some [(''format'', PStr ''pdf'')]) None = Inr ''html'' \<and>
   wants_type parse_header_ex (json_request PNone)
     (Some ''text/html;q=1.0, application/json;q=0.5'') None (Some []) None = Inr ''html''"
proof -
  have a: "format_of [(''format'', PStr ''pdf'')] None = PStr ''pdf''"
    by (simp add: format_of_def dict_get_def)
  have b: "find_type CONTENT_TYPES (lower ''pdf'') = None"
    by (simp add: lower_def lower_char_def CONTENT_TYPES_def)
  have c: "parse_header_ex (accept_header (json_request PNone)
             (Some ''image/png, application/x-html5;q=0.9, application/json;q=0.8'') None)
           = Inr ([''image/png''] @ ''application/x-html5'' # [''application/json''])"
    by (simp add: accept_header_given parse_header_ex_def)
  have d: "\<forall>m \<in> set [''image/png''].
             \<not> str_in ''html'' m \<and> find_type CONTENT_TYPES (lower m) = None"
    by (simp add: lower_def lower_char_def CONTENT_TYPES_def)
  have e: "str_in ''html'' ''application/x-html5''" by simp
  have f: "parse_header_ex ''text/html;q=1.0, application/json;q=0.5''
             = Inr [''text/html'', ''application/json'']"
    by (simp add: parse_header_ex_def)
  show ?thesis using accept_html_short_circuit[where parse_header = parse_header_ex
        and parse_header' = parse_header_ex, OF a b c d e f] by simp
qed

text \<open>
  C8. With \<^verbatim>\<open>API_ONLY\<close> true \<^verbatim>\<open>want_json\<close> returns \<^verbatim>\<open>True\<close> for every \<^verbatim>\<open>accepts\<close>,
  \<^verbatim>\<open>headers\<close>, \<^verbatim>\<open>query\<close> and \<^verbatim>\<open>fmt\<close>; with \<^verbatim>\<open>API_ONLY\<close> false it returns \<^verbatim>\<open>True\<close> exactly
  when \<^verbatim>\<open>wants_type\<close> returns \<^verbatim>\<open>'json'\<close> on the same arguments.
\<close>

theorem want_json_api_only:
  "want_json True parse_header request accepts hdrs query fmt = Inr True \<and>
   (want_json False parse_header request accepts hdrs query fmt = Inr True
      \<longleftrightarrow> wants_type parse_header request accepts hdrs query fmt = Inr ''json'')"
  by (auto simp: want_json_def split: sum.splits)

text \<open>The instance of the claim: \<^verbatim>\<open>Accept: text/html\<close>, which without the flag gives \<^verbatim>\<open>'html'\<close>.\<close>

theorem want_json_api_only_witness:
  "want_json True parse_header_ex (json_request PNone) (Some ''text/html'') None (Some []) None
     = Inr True \<and>
   want_json False parse_header_ex (json_request PNone) (Some ''text/html'') None (Some []) None
     \<noteq> Inr True"
proof -
  have "parse_header_ex ''text/html'' = Inr [''text/html'']"
    by (simp add: parse_header_ex_def)
  then have "wants_type parse_header_ex (json_request PNone) (Some ''text/html'') None (Some [])
      None = Inr ''html''"
    by (simp add: wants_type_no_format)
  then show ?thesis
    using want_json_api_only[of parse_header_ex "json_request PNone" "Some ''text/html''" None
        "Some []" None]
    by simp
qed

text \<open>
  C9. In the \<^verbatim>\<open>text\<close> list two commas are missing, so \<^verbatim>\<open>application/plaintext\<close>,
  \<^verbatim>\<open>application/x-plain\<close>, \<^verbatim>\<open>application/plain-text\<close> and \<^verbatim>\<open>application/text\<close> are
  aliases of no format; the aliases are the joined strings
  \<^verbatim>\<open>application/x-plainapplication/plaintext\<close> and
  \<^verbatim>\<open>application/plain-textapplication/text\<close>. Hence with the explicit format
  \<^verbatim>\<open>application/plaintext\<close> or \<^verbatim>\<open>application/text\<close>, no parameters and an \<^verbatim>\<open>Accept\<close>
  header that parses to no entry, \<^verbatim>\<open>wants_type\<close> returns \<^verbatim>\<open>'any'\<close>, not \<^verbatim>\<open>'text'\<close>.
\<close>

theorem fused_text_aliases:
  assumes "parse_header (accept_header request accepts hdrs) = Inr []"
  shows "find_type CONTENT_TYPES ''application/plaintext'' = None \<and>
         find_type CONTENT_TYPES ''application/x-plain'' = None \<and>
         find_type CONTENT_TYPES ''application/plain-text'' = None \<and>
         find_type CONTENT_TYPES ''application/text'' = None \<and>
         find_type CONTENT_TYPES ''application/x-plainapplication/plaintext'' = Some ''text'' \<and>
         find_type CONTENT_TYPES ''application/plain-textapplication/text'' = Some ''text'' \<and>
         wants_type parse_header request accepts hdrs (Some []) (Some ''application/plaintext'')
           = Inr ''any'' \<and>
         wants_type parse_header request accepts hdrs (Some []) (Some ''application/text'')
           = Inr ''any''"
proof -
  have l1: "lower ''application/plaintext'' = ''application/plaintext''"
    and l2: "lower ''application/text'' = ''application/text''"
    by (simp_all add: lower_def lower_char_def)
  have n1: "find_type CONTENT_TYPES ''application/plaintext'' = None"
    and n2: "find_type CONTENT_TYPES ''application/text'' = None"
    by (simp_all add: CONTENT_TYPES_def)
  have w1: "wants_type parse_header request accepts hdrs (Some []) (Some ''application/plaintext'')
           = Inr ''any''"
    by (simp add: wants_type_returns[where parse_header = parse_header, OF assms query_of_given
        format_of_explicit] l1 n1)
  have w2: "wants_type parse_header request accepts hdrs (Some []) (Some ''application/text'')
           = Inr ''any''"
    by (simp add: wants_type_returns[where parse_header = parse_header, OF assms query_of_given
        format_of_explicit] l2 n2)
  have rest: "find_type CONTENT_TYPES ''application/x-plain'' = None"
      "find_type CONTENT_TYPES ''application/plain-text'' = None"
      "find_type CONTENT_TYPES ''application/x-plainapplication/plaintext'' = Some ''text''"
      "find_type CONTENT_TYPES ''application/plain-textapplication/text'' = Some ''text''"
    by (simp_all add: CONTENT_TYPES_def)
  from n1 n2 w1 w2 rest show ?thesis by simp
qed

text \<open>An instance: the request carries an empty \<^verbatim>\<open>Accept\<close> header, parsed to no entry.\<close>

theorem fused_text_aliases_witness:
  "wants_type parse_header_ex
     \<lparr>headers = [(''Accept'', [])], args = [], form = [],
      get_json = (\<lambda>force silent cache. Inr PNone)\<rparr>
     (Some []) None (Some []) (Some ''application/plaintext'') = Inr ''any'' \<and>
   wants_type parse_header_ex
     \<lparr>headers = [(''Accept'', [])], args = [], form = [],
      get_json = (\<lambda>force silent cache. Inr PNone)\<rparr>
     (Some []) None (Some []) (Some ''application/text'') = Inr ''any''"
  using fused_text_aliases[of parse_header_ex
      "\<lparr>headers = [(''Accept'', [])], args = [], form = [],
        get_json = (\<lambda>force silent cache. Inr PNone)\<rparr>"
      "Some []" None]
  by (simp add: accept_header_def empty_def dict_get_def parse_header_ex_def)

text \<open>
  C10. Each of the four literal lists checked after the registry loop is a subset of the
  registry list of the same format, and \<^verbatim>\<open>wants_type\<close> with the four checks taken out
  is the same function as \<^verbatim>\<open>wants_type\<close>.
\<close>

theorem wants_type_no_fallback_eq:
  "set [''json'', ''application/json'', ''js'', ''api'']
     \<subseteq> set (dict_get CONTENT_TYPES ''json'' []) \<and>
   set [''flat'', ''plain'', ''text'', ''text/plain'', ''plaintext'']
     \<subseteq> set (dict_get CONTENT_TYPES ''text'' []) \<and>
   set [''html'', ''text/html'', ''application/html'', ''web'', ''page'', ''webpage'']
     \<subseteq> set (dict_get CONTENT_TYPES ''html'' []) \<and>
   set [''yml'', ''yaml'', ''text/yaml'', ''text/yml'', ''application/yaml'', ''application/yml'']
     \<subseteq> set (dict_get CONTENT_TYPES ''yaml'' []) \<and>
   wants_type_no_fallback = wants_type"
proof -
  have sub: "set [''json'', ''application/json'', ''js'', ''api'']
       \<subseteq> set (dict_get CONTENT_TYPES ''json'' [])"
    "set [''flat'', ''plain'', ''text'', ''text/plain'', ''plaintext'']
       \<subseteq> set (dict_get CONTENT_TYPES ''text'' [])"
    "set [''html'', ''text/html'', ''application/html'', ''web'', ''page'', ''webpage'']
       \<subseteq> set (dict_get CONTENT_TYPES ''html'' [])"
    "set [''yml'', ''yaml'', ''text/yaml'', ''text/yml'', ''application/yaml'', ''application/yml'']
       \<subseteq> set (dict_get CONTENT_TYPES ''yaml'' [])"
    by (simp_all add: dict_get_def CONTENT_TYPES_def)
  have eq: "wants_type_no_fallback = wants_type"
    unfolding fun_eq_iff wants_type_no_fallback_def wants_type_def fallback_checks_skip
    by (intro allI refl)
  from sub eq show ?thesis by simp
qed

text \<open>An instance: \<^verbatim>\<open>?format=API\<close> is answered \<^verbatim>\<open>'json'\<close> without the literal checks.\<close>

theorem wants_type_no_fallback_eq_witness:
  "wants_type_no_fallback parse_header_ex (json_request PNone) (Some ''text/plain'') None
     (Some [(''format'', PStr ''API'')]) None = Inr ''json''"
proof -
  have a: "parse_header_ex (accept_header (json_request PNone) (Some ''text/plain'') None)
             = Inr [''text/plain'']"
    by (simp add: accept_header_given parse_header_ex_def)
  have c: "format_of [(''format'', PStr ''API'')] None = PStr ''API''"
    by (simp add: format_of_def dict_get_def)
  have "wants_type parse_header_ex (json_request PNone) (Some ''text/plain'') None
     (Some [(''format'', PStr ''API'')]) None = Inr ''json''"
    by (simp add: wants_type_returns[where parse_header = parse_header_ex, OF a query_of_given c] lower_def lower_char_def
        CONTENT_TYPES_def)
  then show ?thesis using wants_type_no_fallback_eq by simp
qed

end
